theory Spec2Isabelle
  imports Complex_Main
begin

section \<open>Binary64 numbers\<close>

text \<open>
  Python's \<^verbatim>\<open>float\<close> and \<^verbatim>\<open>numpy.float64\<close>: a finite value (a rational; \<open>Fin 0\<close> is the
  positive zero), the negative zero, an infinity, or NaN. Results of arithmetic are rounded
  to the nearest representable value, ties to even, with gradual underflow to a signed zero
  and overflow to a signed infinity.
\<close>

datatype f64 = Fin rat | NegZero | PInf | NInf | NaN

definition round_half_even :: "rat \<Rightarrow> int" where
  "round_half_even q =
     (let f = \<lfloor>q\<rfloor>; r = q - of_int f
      in if r < 1 / 2 then f else if 1 / 2 < r then f + 1 else if even f then f else f + 1)"

text \<open>
  The number of binary digits of a positive integer (\<^verbatim>\<open>int.bit_length\<close>), and from it the
  exponent \<open>e\<close> of a non-zero rational: \<open>2\<^sup>e\<close> is at most \<open>\<bar>q\<bar>\<close>, which is below \<open>2\<^sup>e\<^sup>+\<^sup>1\<close>.
\<close>

function bit_length :: "int \<Rightarrow> int" where
  "bit_length n = (if n \<le> 0 then 0 else bit_length (n div 2) + 1)"
  by pat_completeness auto
termination
  by (relation "measure nat") auto

declare bit_length.simps [simp del]

definition binade :: "rat \<Rightarrow> int" where
  "binade q =
     (let (a, b) = quotient_of \<bar>q\<bar>;
          d = bit_length a - bit_length b
      in if 2 powi d \<le> \<bar>q\<bar> then d else d - 1)"

definition signed_zero :: "bool \<Rightarrow> f64" where
  "signed_zero neg = (if neg then NegZero else Fin 0)"

definition signed_inf :: "bool \<Rightarrow> f64" where
  "signed_inf neg = (if neg then NInf else PInf)"

definition f64_round :: "rat \<Rightarrow> f64" where
  "f64_round q =
     (if q = 0 then Fin 0
      else let e = max (binade q) (- 1022);
               ulp = 2 powi (e - 52);
               m = round_half_even (\<bar>q\<bar> / ulp)
           in if 1024 \<le> e \<or> (e = 1023 \<and> m = 2 ^ 53) then signed_inf (q < 0)
              else if m = 0 then signed_zero (q < 0)
              else Fin ((if 0 < q then 1 else - 1) * of_int m * ulp))"

text \<open>The conversion of an integer, the finite values, and the sign bit.\<close>

definition f64_of_int :: "int \<Rightarrow> f64" where
  "f64_of_int n = f64_round (of_int n)"

fun is_finite :: "f64 \<Rightarrow> bool" where
  "is_finite (Fin a) = True"
| "is_finite NegZero = True"
| "is_finite _ = False"

fun magnitude :: "f64 \<Rightarrow> rat" where
  "magnitude (Fin a) = a"
| "magnitude _ = 0"

fun negative :: "f64 \<Rightarrow> bool" where
  "negative (Fin a) = (a < 0)"
| "negative NegZero = True"
| "negative NInf = True"
| "negative _ = False"

definition is_zero :: "f64 \<Rightarrow> bool" where
  "is_zero x = (is_finite x \<and> magnitude x = 0)"

text \<open>
  Subtraction, multiplication and division. An exact result of zero takes its sign from
  the operands. Division by zero is not an exception for numpy scalars: it yields an
  infinity or NaN.
\<close>

definition f64_sub :: "f64 \<Rightarrow> f64 \<Rightarrow> f64" where
  "f64_sub x y =
     (if x = NaN \<or> y = NaN then NaN
      else if is_finite x \<and> is_finite y then
        (let d = magnitude x - magnitude y
         in if d = 0 then signed_zero (x = NegZero \<and> y \<noteq> NegZero) else f64_round d)
      else if is_finite y then x
      else if is_finite x then signed_inf (\<not> negative y)
      else if x = y then NaN
      else x)"

definition f64_mul :: "f64 \<Rightarrow> f64 \<Rightarrow> f64" where
  "f64_mul x y =
     (if x = NaN \<or> y = NaN then NaN
      else if is_finite x \<and> is_finite y then
        (let p = magnitude x * magnitude y
         in if p = 0 then signed_zero (negative x \<noteq> negative y) else f64_round p)
      else if is_zero x \<or> is_zero y then NaN
      else signed_inf (negative x \<noteq> negative y))"

definition f64_div :: "f64 \<Rightarrow> f64 \<Rightarrow> f64" where
  "f64_div x y =
     (if x = NaN \<or> y = NaN then NaN
      else if is_finite x \<and> is_finite y then
        (if is_zero y then (if is_zero x then NaN else signed_inf (negative x \<noteq> negative y))
         else let q = magnitude x / magnitude y
              in if q = 0 then signed_zero (negative x \<noteq> negative y) else f64_round q)
      else if is_finite y then signed_inf (negative x \<noteq> negative y)
      else if is_finite x then signed_zero (negative x \<noteq> negative y)
      else NaN)"


section \<open>Python values\<close>

text \<open>
  The dashboard script \<^verbatim>\<open>crypto_app.py\<close> receives whatever \<^verbatim>\<open>response.json()\<close> yields: an
  arbitrary JSON value. \<open>JNull\<close> is Python's \<^verbatim>\<open>None\<close>, a \<open>JObj\<close> is a \<^verbatim>\<open>dict\<close> given by
  its items (keys distinct, in insertion order). A number written without fraction or
  exponent is an \<^verbatim>\<open>int\<close> of any size (\<open>JInt\<close>), any other number a \<^verbatim>\<open>float\<close> (\<open>JFloat\<close>).
  Strings are ASCII.
\<close>

datatype json =
    JNull
  | JBool bool
  | JInt int
  | JFloat f64
  | JStr string
  | JArr "json list"
  | JObj "(string \<times> json) list"

text \<open>Truth value testing, as done by \<^verbatim>\<open>if raw_data:\<close> and \<^verbatim>\<open>if not raw_data:\<close>.\<close>

fun truthy :: "json \<Rightarrow> bool" where
  "truthy JNull = False"
| "truthy (JBool b) = b"
| "truthy (JInt n) = (n \<noteq> 0)"
| "truthy (JFloat x) = (\<not> is_zero x)"
| "truthy (JStr s) = (s \<noteq> [])"
| "truthy (JArr xs) = (xs \<noteq> [])"
| "truthy (JObj kvs) = (kvs \<noteq> [])"

text \<open>The exceptions that can leave the transformer and the presenter.\<close>

datatype py_error =
    KeyError json
  | TypeError
  | IndexError
  | ValueError
  | OutOfBoundsDatetime

text \<open>
  A computation returns, raises, or leaves the part of pandas that this development
  describes (\<open>Unmodelled\<close>: nothing is claimed about such a run).
\<close>

datatype 'a outcome = Returns 'a | Raises py_error | Unmodelled

fun and_then :: "'a outcome \<Rightarrow> ('a \<Rightarrow> 'b outcome) \<Rightarrow> 'b outcome" where
  "and_then (Returns x) f = f x"
| "and_then (Raises e) f = Raises e"
| "and_then Unmodelled f = Unmodelled"

text \<open>\<^verbatim>\<open>x[key]\<close> with a string key, \<^verbatim>\<open>x[i]\<close> with a position, and \<^verbatim>\<open>for v in x\<close>.\<close>

fun getitem_key :: "json \<Rightarrow> string \<Rightarrow> json outcome" where
  "getitem_key (JObj kvs) k =
     (case map_of kvs k of Some v \<Rightarrow> Returns v | None \<Rightarrow> Raises (KeyError (JStr k)))"
| "getitem_key _ k = Raises TypeError"

fun getitem_pos :: "json \<Rightarrow> nat \<Rightarrow> json outcome" where
  "getitem_pos (JArr xs) i = (if i < length xs then Returns (xs ! i) else Raises IndexError)"
| "getitem_pos (JStr s) i = (if i < length s then Returns (JStr [s ! i]) else Raises IndexError)"
| "getitem_pos (JObj kvs) i = Raises (KeyError (JInt (int i)))"
| "getitem_pos _ i = Raises TypeError"

fun iterate :: "json \<Rightarrow> json list outcome" where
  "iterate (JArr xs) = Returns xs"
| "iterate (JStr s) = Returns (map (\<lambda>c. JStr [c]) s)"
| "iterate (JObj kvs) = Returns (map (\<lambda>kv. JStr (fst kv)) kvs)"
| "iterate _ = Raises TypeError"

text \<open>A list comprehension \<^verbatim>\<open>[f(v) for v in vs]\<close>: the first failure ends it.\<close>

fun for_each :: "('a \<Rightarrow> 'b outcome) \<Rightarrow> 'a list \<Rightarrow> 'b list outcome" where
  "for_each f [] = Returns []"
| "for_each f (v # vs) =
     and_then (f v) (\<lambda>y. and_then (for_each f vs) (\<lambda>ys. Returns (y # ys)))"

text \<open>
  \<^verbatim>\<open>d[k] = v\<close> on an insertion-ordered mapping (a \<^verbatim>\<open>dict\<close>, the columns of a frame): an
  existing key keeps its place and takes the new value, a new key goes to the end.
\<close>

fun dict_setitem :: "'k \<Rightarrow> 'v \<Rightarrow> ('k \<times> 'v) list \<Rightarrow> ('k \<times> 'v) list" where
  "dict_setitem k v [] = [(k, v)]"
| "dict_setitem k v (c # cs) =
     (if fst c = k then (k, v) # cs else c # dict_setitem k v cs)"


section \<open>Data frames\<close>

text \<open>
  A value read from a column is a 64-bit integer, a binary64 number or \<^verbatim>\<open>None\<close>. A column
  has one of three types: 64-bit integers, binary64 numbers, or Python objects (here
  \<^verbatim>\<open>None\<close> or a NaN).
\<close>

datatype scalar = I64 int | F64 f64 | PyNone

datatype column = Int64 "int list" | Float64 "f64 list" | Object "scalar list"

fun cells :: "column \<Rightarrow> scalar list" where
  "cells (Int64 ns) = map I64 ns"
| "cells (Float64 xs) = map F64 xs"
| "cells (Object ss) = ss"

text \<open>
  The type that pandas gives to a list of values, both for a column of the rows passed to
  the \<^verbatim>\<open>DataFrame\<close> constructor and for a list assigned as a column. Described are lists of
  integers that fit 64 bits, floats and nulls: all null gives an object column of \<^verbatim>\<open>None\<close>,
  all integers a column of 64-bit integers, and any other mix a binary64 column in which an
  integer is converted (and rounded if need be) and a null is NaN.
\<close>

definition int64 :: "int \<Rightarrow> bool" where
  "int64 n = (- 9223372036854775808 \<le> n \<and> n \<le> 9223372036854775807)"

fun is_null :: "json \<Rightarrow> bool" where
  "is_null JNull = True"
| "is_null _ = False"

fun is_int64 :: "json \<Rightarrow> bool" where
  "is_int64 (JInt n) = int64 n"
| "is_int64 _ = False"

fun is_float :: "json \<Rightarrow> bool" where
  "is_float (JFloat x) = True"
| "is_float _ = False"

definition is_number :: "json \<Rightarrow> bool" where
  "is_number v = (is_null v \<or> is_int64 v \<or> is_float v)"

fun int_of :: "json \<Rightarrow> int" where
  "int_of (JInt n) = n"
| "int_of _ = 0"

fun float_of :: "json \<Rightarrow> f64" where
  "float_of (JInt n) = f64_of_int n"
| "float_of (JFloat x) = x"
| "float_of _ = NaN"

definition infer_column :: "json list \<Rightarrow> column outcome" where
  "infer_column vs =
     (if vs = [] then Returns (Object [])
      else if list_all is_null vs then Returns (Object (map (\<lambda>v. PyNone) vs))
      else if list_all is_int64 vs then Returns (Int64 (map int_of vs))
      else if list_all is_number vs then Returns (Float64 (map float_of vs))
      else Unmodelled)"

text \<open>
  A pandas \<^verbatim>\<open>DataFrame\<close> is an index (one label per row) and named columns of equal
  length. A timestamp is the count of milliseconds since the epoch, or NaT.
\<close>

datatype datetime = NaT | EpochMs int

datatype label = Pos nat | Date datetime

record dataframe =
  index :: "label list"
  columns :: "(string \<times> column) list"

text \<open>\<^verbatim>\<open>pd.DataFrame()\<close>, \<^verbatim>\<open>len(df)\<close>, \<^verbatim>\<open>df.empty\<close> and \<^verbatim>\<open>df[name]\<close>.\<close>

definition empty_DataFrame :: dataframe where
  "empty_DataFrame = \<lparr>index = [], columns = []\<rparr>"

definition len :: "dataframe \<Rightarrow> nat" where
  "len df = length (index df)"

definition df_empty :: "dataframe \<Rightarrow> bool" where
  "df_empty df = (index df = [] \<or> columns df = [])"

definition column :: "dataframe \<Rightarrow> string \<Rightarrow> column outcome" where
  "column df name =
     (case map_of (columns df) name of
        Some xs \<Rightarrow> Returns xs
      | None \<Rightarrow> Raises (KeyError (JStr name)))"

text \<open>
  \<^verbatim>\<open>series[i]\<close> with an integer key on a series whose index holds timestamps: the key is a
  position, negative keys count from the end, and a position outside the series raises
  \<^verbatim>\<open>IndexError\<close>. This is what pandas releases before 3.0 do; from 3.0 on such a key is
  looked up as a label.
\<close>

definition series_getitem :: "column \<Rightarrow> int \<Rightarrow> scalar outcome" where
  "series_getitem xs i =
     (let n = int (length (cells xs)); j = (if i < 0 then n + i else i)
      in if 0 \<le> j \<and> j < n then Returns (cells xs ! nat j) else Raises IndexError)"

text \<open>
  \<^verbatim>\<open>pd.DataFrame(data, columns=[c1, c2])\<close> is described for a list of two-element lists;
  each of the two columns gets its type from its values. An empty list gives a frame with
  both columns and no rows.
\<close>

fun as_pair :: "json \<Rightarrow> (json \<times> json) option" where
  "as_pair (JArr [a, b]) = Some (a, b)"
| "as_pair _ = None"

definition DataFrame :: "json \<Rightarrow> string \<Rightarrow> string \<Rightarrow> dataframe outcome" where
  "DataFrame data c1 c2 =
     (case data of
        JArr rows \<Rightarrow>
          (case those (map as_pair rows) of
             Some ps \<Rightarrow>
               and_then (infer_column (map fst ps)) (\<lambda>first.
               and_then (infer_column (map snd ps)) (\<lambda>second.
               Returns \<lparr>index = map Pos [0..<length ps],
                        columns = [(c1, first), (c2, second)]\<rparr>))
           | None \<Rightarrow> Unmodelled)
      | _ \<Rightarrow> Unmodelled)"

text \<open>
  \<^verbatim>\<open>df[name] = vals\<close> with a list. A frame that has no rows yet takes its index from a
  non-empty list, and its existing columns are filled with NaN; otherwise the list must be
  as long as the index, which is checked before the list becomes a column.
\<close>

definition setitem :: "dataframe \<Rightarrow> string \<Rightarrow> json list \<Rightarrow> dataframe outcome" where
  "setitem df name vals =
     (if index df = [] \<and> vals \<noteq> [] then
        and_then (infer_column vals) (\<lambda>col.
        Returns \<lparr>index = map Pos [0..<length vals],
                 columns = dict_setitem name col
                   (map (\<lambda>c. (fst c, Object (replicate (length vals) (F64 NaN)))) (columns df))\<rparr>)
      else if length vals \<noteq> length (index df) then Raises ValueError
      else
        and_then (infer_column vals) (\<lambda>col.
        Returns (df\<lparr>columns := dict_setitem name col (columns df)\<rparr>)))"

text \<open>
  \<^verbatim>\<open>pd.to_datetime(series, unit='ms')\<close>. A column of 64-bit integers is converted value by
  value; the result counts nanoseconds in 64 bits, so a count of milliseconds beyond
  9223372036854 in either direction raises \<^verbatim>\<open>OutOfBoundsDatetime\<close>. An object column of NaN
  (or with no rows) gives NaT for every row. Other columns are not described, nor is the
  smallest 64-bit integer, which numpy reads as NaT.
\<close>

definition in_bounds :: "int \<Rightarrow> bool" where
  "in_bounds n = (- 9223372036854 \<le> n \<and> n \<le> 9223372036854)"

definition to_datetime :: "column \<Rightarrow> datetime list outcome" where
  "to_datetime c =
     (case c of
        Int64 ns \<Rightarrow>
          if - 9223372036854775808 \<in> set ns then Unmodelled
          else if list_all in_bounds ns then Returns (map EpochMs ns)
          else Raises OutOfBoundsDatetime
      | Object ss \<Rightarrow>
          if list_all (\<lambda>s. s = F64 NaN) ss then Returns (map (\<lambda>s. NaT) ss) else Unmodelled
      | Float64 xs \<Rightarrow> Unmodelled)"


section \<open>The transformer\<close>

text \<open>
  \<^verbatim>\<open>process_data\<close>, line by line. The last two lines of the function store the converted
  timestamps as column \<^verbatim>\<open>date\<close> and move that column into the index; the result is the frame
  with the timestamps as its index.
\<close>

definition process_data :: "json \<Rightarrow> dataframe outcome" where
  "process_data raw_data =
     (if \<not> truthy raw_data then Returns empty_DataFrame
      else
        and_then (getitem_key raw_data ''prices'') (\<lambda>prices.
        and_then (DataFrame prices ''timestamp'' ''price'') (\<lambda>df.
        and_then (getitem_key raw_data ''total_volumes'') (\<lambda>total_volumes.
        and_then (iterate total_volumes) (\<lambda>vols.
        and_then (for_each (\<lambda>vol. getitem_pos vol 1) vols) (\<lambda>volume.
        and_then (setitem df ''volume'' volume) (\<lambda>df.
        and_then (column df ''timestamp'') (\<lambda>ts.
        and_then (to_datetime ts) (\<lambda>date.
        Returns (df\<lparr>index := map Date date\<rparr>))))))))))"

text \<open>
  A sequence of \<open>[epoch_millis, value]\<close> pairs with integer timestamps, as the provider sends
  it. Its values are uniform when they are all floats or all integers of 64 bits; a value
  is then stored in its column as it is (\<open>scalar_of\<close>), and \<open>typed\<close> is the column. The market
  table that the specification expects for \<open>prices = pairs ps\<close> and \<open>total_volumes = pairs vs\<close>
  has one row per price entry, in input order, keyed by the converted timestamp.
\<close>

definition pairs :: "(int \<times> json) list \<Rightarrow> json" where
  "pairs ps = JArr (map (\<lambda>p. JArr [JInt (fst p), snd p]) ps)"



definition typed :: "json list \<Rightarrow> column" where
  "typed vs = (if list_all is_int64 vs then Int64 (map int_of vs) else Float64 (map float_of vs))"

definition market_table :: "(int \<times> json) list \<Rightarrow> (int \<times> json) list \<Rightarrow> dataframe" where
  "market_table ps vs =
     \<lparr>index = map (\<lambda>p. Date (EpochMs (fst p))) ps,
      columns = [(''timestamp'', Int64 (map fst ps)),
                 (''price'', typed (map snd ps)),
                 (''volume'', typed (map snd vs))]\<rparr>"

text \<open>
  A sequence of pairs is well shaped for the constructor when its timestamps fit 64 bits and
  its values are integers of 64 bits, floats or nulls.
\<close>

definition well_shaped :: "(int \<times> json) list \<Rightarrow> bool" where
  "well_shaped ps = list_all (\<lambda>p. int64 (fst p) \<and> is_number (snd p)) ps"


section \<open>The fetcher\<close>

text \<open>Decimal digits of a number, and \<^verbatim>\<open>str.title()\<close> on ASCII text.\<close>

fun str_nat :: "nat \<Rightarrow> string" where
  "str_nat n =
     (if n < 10 then [char_of (48 + n)] else str_nat (n div 10) @ [char_of (48 + n mod 10)])"

declare str_nat.simps [simp del]

definition is_lower :: "char \<Rightarrow> bool" where
  "is_lower c = (97 \<le> (of_char c :: nat) \<and> (of_char c :: nat) \<le> 122)"

definition is_upper :: "char \<Rightarrow> bool" where
  "is_upper c = (65 \<le> (of_char c :: nat) \<and> (of_char c :: nat) \<le> 90)"

fun title_from :: "bool \<Rightarrow> string \<Rightarrow> string" where
  "title_from cased [] = []"
| "title_from cased (c # cs) =
     (if is_lower c then (if cased then c else char_of (of_char c - (32 :: nat))) # title_from True cs
      else if is_upper c then (if cased then char_of (of_char c + (32 :: nat)) else c) # title_from True cs
      else c # title_from False cs)"

definition title :: "string \<Rightarrow> string" where
  "title s = title_from False s"

text \<open>
  The HTTP client. Every exception it raises belongs to the class family of
  \<^verbatim>\<open>RequestException\<close> (connection errors, \<^verbatim>\<open>HTTPError\<close>, and from release 2.27 of the
  client also JSON decoding errors); \<open>Inl msg\<close> stands for such an exception with the text
  \<open>msg\<close> of \<^verbatim>\<open>str(e)\<close>. \<^verbatim>\<open>requests.get(url)\<close> raises or returns a response. The body of a
  response is the JSON value it decodes to, or the decoder's message when it is not JSON.
  \<^verbatim>\<open>raise_for_status\<close> raises for the client and server error codes only.
\<close>

record response =
  status_code :: nat
  reason :: string
  body :: "string + json"

type_synonym network = "string \<Rightarrow> string + response"

definition raise_for_status :: "string \<Rightarrow> response \<Rightarrow> string + unit" where
  "raise_for_status url r =
     (if 400 \<le> status_code r \<and> status_code r < 500
      then Inl (str_nat (status_code r) @ '' Client Error: '' @ reason r @ '' for url: '' @ url)
      else if 500 \<le> status_code r \<and> status_code r < 600
      then Inl (str_nat (status_code r) @ '' Server Error: '' @ reason r @ '' for url: '' @ url)
      else Inr ())"

text \<open>The \<^verbatim>\<open>try\<close> block of the fetcher: GET, status check, decoding.\<close>

definition fetch_attempt :: "network \<Rightarrow> string \<Rightarrow> string + json" where
  "fetch_attempt net url =
     (case net url of
        Inl e \<Rightarrow> Inl e
      | Inr response \<Rightarrow>
          (case raise_for_status url response of
             Inl e \<Rightarrow> Inl e
           | Inr u \<Rightarrow> body response))"

text \<open>
  The failure conditions of the fetcher: a network failure, an error status (400 to 599),
  or a body that is not JSON.
\<close>

definition fetch_fails :: "network \<Rightarrow> string \<Rightarrow> bool" where
  "fetch_fails net url =
     (case net url of
        Inl msg \<Rightarrow> True
      | Inr r \<Rightarrow> (400 \<le> status_code r \<and> status_code r < 600) \<or> isl (body r))"

text \<open>What the page shows: the Streamlit calls of the script, in the order they are made.\<close>

datatype fmt = Usd2 scalar | Usd0 scalar | UsdChange scalar scalar | Count nat

datatype trace =
    Scatter "label list" column
  | Bar "label list" column
  | Histogram column

datatype element =
    PageConfig string string
  | Title string
  | Markdown string
  | SidebarHeader string
  | Selectbox string "string list" nat
  | Info string
  | Error string
  | Warning string
  | Subheader string
  | Columns nat
  | Metric string fmt "fmt option"
  | PlotlyChart trace string
  | Write string

fun is_chart :: "element \<Rightarrow> bool" where
  "is_chart (PlotlyChart t s) = True"
| "is_chart _ = False"

text \<open>
  The body of \<^verbatim>\<open>fetch_crypto_data\<close>: the notice, one GET, and the \<^verbatim>\<open>except\<close> clause that
  turns a \<^verbatim>\<open>RequestException\<close> into an error element and \<^verbatim>\<open>None\<close>. The result records the
  elements shown, the value returned and the URLs requested.
\<close>

definition market_chart_url :: "string \<Rightarrow> nat \<Rightarrow> string" where
  "market_chart_url coin_id days =
     ''https://api.coingecko.com/api/v3/coins/'' @ coin_id
       @ ''/market_chart?vs_currency=usd&days='' @ str_nat days"

record fetched =
  shown :: "element list"
  returned :: json
  requested :: "string list"

definition notice :: "string \<Rightarrow> element" where
  "notice coin_id = Info (''Fetching latest data for '' @ title coin_id @ ''...'')"

definition fetch_body :: "network \<Rightarrow> string \<Rightarrow> nat \<Rightarrow> fetched" where
  "fetch_body net coin_id days =
     (let url = market_chart_url coin_id days
      in case fetch_attempt net url of
           Inr data \<Rightarrow> \<lparr>shown = [notice coin_id], returned = data, requested = [url]\<rparr>
         | Inl e \<Rightarrow>
             \<lparr>shown = [notice coin_id, Error (''Error fetching data: '' @ e)],
              returned = JNull, requested = [url]\<rparr>)"

text \<open>
  The decorator \<^verbatim>\<open>st.cache_data(ttl=600)\<close>: a memo table keyed by the arguments. An entry
  holds the returned value (whatever it is, \<^verbatim>\<open>None\<close> included), the elements the body
  showed, and the clock reading when it was stored. A call finds an entry fresh while the
  clock is below the storing time plus the time-to-live; it then replays the elements and
  returns the value without running the body. Otherwise the body runs and its result is
  stored. The clock is read once per call.
\<close>

record cache_entry =
  stored_at :: rat
  cached :: fetched

type_synonym cache = "string \<times> nat \<Rightarrow> cache_entry option"

definition ttl :: rat where
  "ttl = 600"

definition fresh :: "cache \<Rightarrow> string \<times> nat \<Rightarrow> rat \<Rightarrow> cache_entry option" where
  "fresh c key now =
     (case c key of
        Some e \<Rightarrow> if now < stored_at e + ttl then Some e else None
      | None \<Rightarrow> None)"

definition fetch_crypto_data ::
    "network \<Rightarrow> rat \<Rightarrow> cache \<Rightarrow> string \<Rightarrow> nat \<Rightarrow> fetched \<times> cache" where
  "fetch_crypto_data net now c coin_id days =
     (case fresh c (coin_id, days) now of
        Some e \<Rightarrow> (cached e\<lparr>requested := []\<rparr>, c)
      | None \<Rightarrow>
          (let f = fetch_body net coin_id days
           in (f, c((coin_id, days) \<mapsto> \<lparr>stored_at = now, cached = f\<rparr>))))"



section \<open>The presenter\<close>

text \<open>
  A dict literal is built by inserting its items from left to right. \<open>COIN_MAP\<close> writes the
  key \<^verbatim>\<open>"XRP"\<close> twice.
\<close>

definition dict_literal :: "('k \<times> 'v) list \<Rightarrow> ('k \<times> 'v) list" where
  "dict_literal items = foldl (\<lambda>d kv. dict_setitem (fst kv) (snd kv) d) [] items"

definition keys :: "('k \<times> 'v) list \<Rightarrow> 'k list" where
  "keys d = map fst d"

definition dict_getitem :: "(string \<times> 'v) list \<Rightarrow> string \<Rightarrow> 'v outcome" where
  "dict_getitem d k =
     (case map_of d k of Some v \<Rightarrow> Returns v | None \<Rightarrow> Raises (KeyError (JStr k)))"

definition COIN_MAP :: "(string \<times> string) list" where
  "COIN_MAP = dict_literal
     [(''BTC'', ''bitcoin''),
      (''ETH'', ''ethereum''),
      (''DOGE'', ''dogecoin''),
      (''XRP'', ''ripple''),
      (''XRP'', ''ripple''),
      (''TETH'', ''tether''),
      (''BNB'', ''binancecoin''),
      (''SOL'', ''solana''),
      (''USDC'', ''usd-coin''),
      (''STETH'', ''staked-ether''),
      (''TRON'', ''tron''),
      (''CARD'', ''cardano''),
      (''WSTE'', ''wrapped-steth''),
      (''CHAI'', ''chainlink''),
      (''PI'', ''pi-network'')]"

text \<open>
  \<^verbatim>\<open>st.sidebar.selectbox(label, options, index)\<close> returns the option the user chose, or the
  option at \<open>index\<close> while the user has not chosen (nothing when there are no options).
\<close>

definition selectbox :: "string list \<Rightarrow> nat \<Rightarrow> string option \<Rightarrow> string option" where
  "selectbox options i chosen =
     (case chosen of
        Some s \<Rightarrow> Some s
      | None \<Rightarrow> if i < length options then Some (options ! i) else None)"

definition DAYS :: nat where
  "DAYS = 60"

text \<open>
  A part of the script shows elements and then returns, raises or leaves the described
  fragment; what was shown before an exception stays on the page.
\<close>

type_synonym 'a ui = "element list \<times> 'a outcome"

definition st :: "element \<Rightarrow> unit ui" where
  "st e = ([e], Returns ())"

definition lift :: "'a outcome \<Rightarrow> 'a ui" where
  "lift r = ([], r)"

definition ui_then :: "'a ui \<Rightarrow> ('a \<Rightarrow> 'b ui) \<Rightarrow> 'b ui" where
  "ui_then m f =
     (case snd m of
        Returns x \<Rightarrow> (fst m @ fst (f x), snd (f x))
      | Raises e \<Rightarrow> (fst m, Raises e)
      | Unmodelled \<Rightarrow> (fst m, Unmodelled))"

text \<open>
  Arithmetic on the values read from a column. On 64-bit integers subtraction and
  multiplication wrap around, and true division converts both operands to binary64; on
  binary64 numbers the operations are those of the previous section; \<^verbatim>\<open>None\<close> raises
  \<^verbatim>\<open>TypeError\<close>.
\<close>

definition wrap64 :: "int \<Rightarrow> int" where
  "wrap64 n = (n + 9223372036854775808) mod 18446744073709551616 - 9223372036854775808"

fun as_f64 :: "scalar \<Rightarrow> f64 outcome" where
  "as_f64 (I64 n) = Returns (f64_of_int n)"
| "as_f64 (F64 x) = Returns x"
| "as_f64 PyNone = Raises TypeError"

fun py_sub :: "scalar \<Rightarrow> scalar \<Rightarrow> scalar outcome" where
  "py_sub (I64 a) (I64 b) = Returns (I64 (wrap64 (a - b)))"
| "py_sub x y =
     and_then (as_f64 x) (\<lambda>a. and_then (as_f64 y) (\<lambda>b. Returns (F64 (f64_sub a b))))"

definition py_truediv :: "scalar \<Rightarrow> scalar \<Rightarrow> scalar outcome" where
  "py_truediv x y =
     and_then (as_f64 x) (\<lambda>a. and_then (as_f64 y) (\<lambda>b. Returns (F64 (f64_div a b))))"

fun py_mul :: "scalar \<Rightarrow> int \<Rightarrow> scalar outcome" where
  "py_mul (I64 a) k = Returns (I64 (wrap64 (a * k)))"
| "py_mul (F64 x) k = Returns (F64 (f64_mul x (f64_of_int k)))"
| "py_mul PyNone k = Raises TypeError"

text \<open>The key metrics (the four assignments after the first subheader).\<close>

record metrics =
  latest_price :: scalar
  prev_price :: scalar
  price_change :: scalar
  price_change_pct :: scalar

definition key_metrics :: "dataframe \<Rightarrow> metrics outcome" where
  "key_metrics df =
     and_then (column df ''price'') (\<lambda>price.
     and_then (series_getitem price (- 1)) (\<lambda>latest.
     and_then (column df ''price'') (\<lambda>price.
     and_then (series_getitem price (- 2)) (\<lambda>prev.
     and_then (py_sub latest prev) (\<lambda>change.
     and_then (py_truediv change prev) (\<lambda>ratio.
     and_then (py_mul ratio 100) (\<lambda>change_pct.
     Returns \<lparr>latest_price = latest, prev_price = prev,
              price_change = change, price_change_pct = change_pct\<rparr>)))))))"

text \<open>
  The f-string templates of the metric values are kept as \<open>fmt\<close> terms with the numbers they
  format; formatting \<^verbatim>\<open>None\<close> with a float format raises \<^verbatim>\<open>TypeError\<close>.
\<close>

fun formatted :: "scalar \<Rightarrow> scalar outcome" where
  "formatted PyNone = Raises TypeError"
| "formatted x = Returns x"

definition usd2 :: "scalar \<Rightarrow> fmt outcome" where
  "usd2 x = and_then (formatted x) (\<lambda>a. Returns (Usd2 a))"

definition usd0 :: "scalar \<Rightarrow> fmt outcome" where
  "usd0 x = and_then (formatted x) (\<lambda>a. Returns (Usd0 a))"

definition usd_change :: "scalar \<Rightarrow> scalar \<Rightarrow> fmt outcome" where
  "usd_change x y =
     and_then (formatted x) (\<lambda>a. and_then (formatted y) (\<lambda>b. Returns (UsdChange a b)))"

text \<open>The branch for a non-empty table: metrics row and three charts.\<close>

definition dashboard :: "string \<Rightarrow> dataframe \<Rightarrow> unit ui" where
  "dashboard name df =
     ui_then (st (Subheader (''Key Metrics for '' @ name))) (\<lambda>u.
     ui_then (lift (key_metrics df)) (\<lambda>m.
     ui_then (st (Columns 3)) (\<lambda>u.
     ui_then (lift (usd2 (latest_price m))) (\<lambda>price_text.
     ui_then (lift (usd_change (price_change m) (price_change_pct m))) (\<lambda>delta_text.
     ui_then (st (Metric ''Latest Price (USD)'' price_text (Some delta_text))) (\<lambda>u.
     ui_then (lift (and_then (column df ''volume'') (\<lambda>volume. series_getitem volume (- 1)))) (\<lambda>v.
     ui_then (lift (usd0 v)) (\<lambda>volume_text.
     ui_then (st (Metric ''24h Trading Volume (USD)'' volume_text None)) (\<lambda>u.
     ui_then (st (Metric ''Data Points Fetched'' (Count (len df)) None)) (\<lambda>u.
     ui_then (st (Subheader (''Price Trend Over the Last '' @ str_nat DAYS @ '' Days''))) (\<lambda>u.
     ui_then (lift (column df ''price'')) (\<lambda>price.
     ui_then (st (PlotlyChart (Scatter (index df) price) (name @ '' Price Trend''))) (\<lambda>u.
     ui_then (st (Subheader ''Daily Trading Volume'')) (\<lambda>u.
     ui_then (lift (column df ''volume'')) (\<lambda>volume.
     ui_then (st (PlotlyChart (Bar (index df) volume) (name @ '' Trading Volume''))) (\<lambda>u.
     ui_then (st (Subheader ''Price Distribution'')) (\<lambda>u.
     ui_then (lift (column df ''price'')) (\<lambda>price.
     st (PlotlyChart (Histogram price) (name @ '' Price Distribution''))))))))))))))))))))"

text \<open>
  One pass of the script, from top to bottom. Its inputs are the auto-refresh counter, the
  user's choice in the dropdown, the clock reading at the fetch, the formatted wall-clock
  time for the footer, and the network. The page records the elements shown, how the pass
  ended, the calls made to the fetcher, the URLs requested and the cache it leaves behind.
  The page icon of the configuration call is not recorded.
\<close>

record inputs =
  refresh_count :: nat
  chosen :: "string option"
  clock :: rat
  wall_clock :: string
  network :: network

record page =
  elements :: "element list"
  ended :: "unit outcome"
  fetch_calls :: "(string \<times> nat) list"
  requests :: "string list"
  cache_after :: cache

definition heading :: "element list" where
  "heading =
     [PageConfig ''Interactive Crypto Dashboard'' ''wide'',
      Title ''Interactive Cryptocurrency Dashboard'',
      Markdown (CHR 0x0A # ''This dashboard allows you to analyze real-time market data for popular cryptocurrencies. ''
                @ CHR 0x0A # ''Select a coin from the dropdown to get started. The data is fetched live from the CoinGecko API.''
                @ [CHR 0x0A]),
      SidebarHeader ''Dashboard Controls'',
      Selectbox ''Select a Cryptocurrency'' (keys COIN_MAP) 0]"

definition footer :: "inputs \<Rightarrow> element list" where
  "footer inp =
     [Markdown ''---'',
      Markdown (''Data sourced from [CoinGecko](https://www.coingecko.com/). Dashboard built with Streamlit. Last updated: ''
                @ wall_clock inp),
      Write (''Auto-refresh count: '' @ str_nat (refresh_count inp))]"

text \<open>The two banners of the main logic, and the main logic itself.\<close>

definition warning_banner :: element where
  "warning_banner = Warning ''Could not process the fetched data.''"

definition banner :: element where
  "banner = Error ''Failed to fetch data from the API. Please try again later.''"

definition main_logic :: "string \<Rightarrow> json \<Rightarrow> unit ui" where
  "main_logic name raw_data =
     (if truthy raw_data then
        ui_then (lift (process_data raw_data)) (\<lambda>df.
          if \<not> df_empty df then dashboard name df
          else st warning_banner)
      else st banner)"

definition stopped :: "cache \<Rightarrow> unit outcome \<Rightarrow> page" where
  "stopped c r =
     \<lparr>elements = heading, ended = r, fetch_calls = [], requests = [], cache_after = c\<rparr>"

definition main :: "cache \<Rightarrow> inputs \<Rightarrow> page" where
  "main c inp =
     (case selectbox (keys COIN_MAP) 0 (chosen inp) of
        None \<Rightarrow> stopped c (Raises (KeyError JNull))
      | Some selected_coin_name \<Rightarrow>
          (case dict_getitem COIN_MAP selected_coin_name of
             Returns selected_coin_id \<Rightarrow>
               (let (f, c') = fetch_crypto_data (network inp) (clock inp) c selected_coin_id DAYS;
                    logic = ui_then (shown f, Returns (returned f)) (main_logic selected_coin_name);
                    rest = ui_then logic (\<lambda>u. (footer inp, Returns ()))
                in \<lparr>elements = heading @ fst rest, ended = snd rest,
                    fetch_calls = [(selected_coin_id, DAYS)], requests = requested f,
                    cache_after = c'\<rparr>)
           | Raises e \<Rightarrow> stopped c (Raises e)
           | Unmodelled \<Rightarrow> stopped c Unmodelled))"



section \<open>Sample inputs\<close>

text \<open>
  Networks that refuse the connection or answer every request with a given response, a
  well-shaped payload of two data points, the memo table of a fresh process, and the inputs
  of a pass.
\<close>

definition offline :: network where
  "offline url = Inl ''Connection refused''"

definition respond :: "nat \<Rightarrow> string \<Rightarrow> string + json \<Rightarrow> network" where
  "respond code why b url = Inr \<lparr>status_code = code, reason = why, body = b\<rparr>"

definition two_points :: json where
  "two_points =
     JObj [(''prices'', pairs [(1000, JFloat (Fin 5)), (2000, JFloat (Fin 6))]),
           (''market_caps'', pairs [(1000, JInt 1), (2000, JInt 2)]),
           (''total_volumes'', pairs [(1000, JFloat (Fin 7)), (2000, JFloat (Fin 8))])]"

definition empty_cache :: cache where
  "empty_cache key = None"

definition tick :: "nat \<Rightarrow> string option \<Rightarrow> rat \<Rightarrow> network \<Rightarrow> inputs" where
  "tick n choice t nw =
     \<lparr>refresh_count = n, chosen = choice, clock = t,
      wall_clock = ''2024-01-01 00:00:00'', network = nw\<rparr>"


section \<open>The rounding model\<close>

text \<open>
  The exponent computed by \<open>binade\<close> is the one that the rounding needs: the magnitude of a
  non-zero rational lies in the binade it names.
\<close>

lemma bit_length_bounds:
  "0 < n \<Longrightarrow> 1 \<le> bit_length n \<and> 2 ^ nat (bit_length n - 1) \<le> n \<and> n < 2 ^ nat (bit_length n)"
proof (induction n rule: bit_length.induct)
  case (1 n)
  have b: "bit_length n = bit_length (n div 2) + 1"
    using "1.prems" by (subst bit_length.simps) simp
  show ?case
  proof (cases "n = 1")
    case True
    have "bit_length (0::int) = 0" by (subst bit_length.simps) simp
    with True b show ?thesis by simp
  next
    case False
    with "1.prems" have m: "0 < n div 2" by simp
    from "1.IH" "1.prems" m
    have l: "1 \<le> bit_length (n div 2)"
      and lo: "2 ^ nat (bit_length (n div 2) - 1) \<le> n div 2"
      and hi: "n div 2 < 2 ^ nat (bit_length (n div 2))"
      by simp_all
    have e1: "nat (bit_length n - 1) = Suc (nat (bit_length (n div 2) - 1))" using l b by simp
    have e2: "nat (bit_length n) = Suc (nat (bit_length (n div 2)))" using l b by simp
    have "2 * 2 ^ nat (bit_length (n div 2) - 1) \<le> 2 * (n div 2)" using lo by simp
    also have "\<dots> \<le> n" by simp
    finally have A: "2 ^ nat (bit_length n - 1) \<le> n" by (simp only: e1 power_Suc)
    have "n div 2 + 1 \<le> 2 ^ nat (bit_length (n div 2))" using hi by simp
    then have "2 * (n div 2) + 2 \<le> 2 * 2 ^ nat (bit_length (n div 2))" by simp
    moreover have "n < 2 * (n div 2) + 2" by presburger
    ultimately have B: "n < 2 ^ nat (bit_length n)" by (simp only: e2 power_Suc)
    from A B l b show ?thesis by simp
  qed
qed

lemma bit_length_powi:
  assumes "0 < n"
  shows "(2::rat) powi (bit_length n - 1) \<le> of_int n" and "of_int n < (2::rat) powi bit_length n"
proof -
  from bit_length_bounds [OF assms]
  have l: "1 \<le> bit_length n" and lo: "2 ^ nat (bit_length n - 1) \<le> n"
    and hi: "n < 2 ^ nat (bit_length n)" by simp_all
  have "(of_int (2 ^ nat (bit_length n - 1)) :: rat) \<le> of_int n" using lo by (simp only: of_int_le_iff)
  then have "(2::rat) ^ nat (bit_length n - 1) \<le> of_int n" by simp
  then show "(2::rat) powi (bit_length n - 1) \<le> of_int n" using l by (simp add: power_int_def)
  have "(of_int n :: rat) < of_int (2 ^ nat (bit_length n))" using hi by (simp only: of_int_less_iff)
  then have "of_int n < (2::rat) ^ nat (bit_length n)" by simp
  then show "of_int n < (2::rat) powi bit_length n" using l by (simp add: power_int_def)
qed

lemma binade_window:
  assumes "q \<noteq> 0" and "quotient_of \<bar>q\<bar> = (a, b)"
  defines "d \<equiv> bit_length a - bit_length b"
  shows "(2::rat) powi (d - 1) < \<bar>q\<bar>" and "\<bar>q\<bar> < 2 powi (d + 1)"
proof -
  have b: "0 < b" using assms(2) by (rule quotient_of_denom_pos)
  have q: "\<bar>q\<bar> = of_int a / of_int b" using assms(2) by (rule quotient_of_div)
  have a: "0 < a"
  proof (rule ccontr)
    assume "\<not> 0 < a"
    then have "of_int a / (of_int b :: rat) \<le> 0" using b by (simp add: divide_le_0_iff)
    with q assms(1) show False by simp
  qed
  let ?la = "bit_length a" and ?lb = "bit_length b"
  note A = bit_length_powi [OF a] and B = bit_length_powi [OF b]
  have pb: "(0::rat) < of_int b" using b by simp
  have "\<bar>q\<bar> * 2 powi (?lb - 1) \<le> \<bar>q\<bar> * of_int b" using B(1) by (simp add: mult_left_mono)
  also have "\<dots> = of_int a" using q pb by simp
  also have "\<dots> < 2 powi ?la" by (rule A(2))
  finally have "\<bar>q\<bar> < 2 powi ?la / 2 powi (?lb - 1)" by (simp add: pos_less_divide_eq)
  also have "\<dots> = 2 powi (?la - (?lb - 1))" by (rule power_int_diff [symmetric]) simp
  also have "?la - (?lb - 1) = d + 1" by (simp add: d_def)
  finally show "\<bar>q\<bar> < 2 powi (d + 1)" .
  have "(2::rat) powi (?la - 1) \<le> of_int a" by (rule A(1))
  also have "\<dots> = \<bar>q\<bar> * of_int b" using q pb by simp
  also have "\<dots> < \<bar>q\<bar> * 2 powi ?lb" using B(2) assms(1) by (simp add: mult_strict_left_mono)
  finally have "2 powi (?la - 1) / 2 powi ?lb < \<bar>q\<bar>" by (simp add: pos_divide_less_eq)
  moreover have "(2::rat) powi (?la - 1) / 2 powi ?lb = 2 powi (?la - 1 - ?lb)"
    by (rule power_int_diff [symmetric]) simp
  moreover have "?la - 1 - ?lb = d - 1" by (simp add: d_def)
  ultimately show "(2::rat) powi (d - 1) < \<bar>q\<bar>" by (simp only:)
qed

lemma binade_bounds:
  assumes "q \<noteq> 0"
  shows "2 powi binade q \<le> \<bar>q\<bar> \<and> \<bar>q\<bar> < 2 powi (binade q + 1)"
proof -
  obtain a b where ab: "quotient_of \<bar>q\<bar> = (a, b)" by (cases "quotient_of \<bar>q\<bar>")
  define d where "d = bit_length a - bit_length b"
  note W = binade_window [OF assms ab, folded d_def]
  have B: "binade q = (if 2 powi d \<le> \<bar>q\<bar> then d else d - 1)"
    by (simp add: binade_def ab d_def Let_def)
  show ?thesis
  proof (cases "2 powi d \<le> \<bar>q\<bar>")
    case True
    with B W(2) show ?thesis by simp
  next
    case False
    with B W(1) show ?thesis by simp
  qed
qed

text \<open>Known binary64 values: one tenth, one third, and the first integer that is rounded.\<close>

lemma f64_round_examples:
  "f64_round (1 / 10) = Fin (3602879701896397 / 36028797018963968)"
  "f64_round (- 1 / 3) = Fin (- 6004799503160661 / 18014398509481984)"
  "f64_round 9007199254740993 = Fin 9007199254740992"
  by code_simp+

lemma f64_signed_zero_examples:
  "f64_div (Fin 5) NegZero = NInf" "f64_sub NegZero (Fin 0) = NegZero"
  "f64_sub (Fin 3) (Fin 3) = Fin 0" "f64_mul (Fin (- 1)) (Fin 0) = NegZero"
  by code_simp+

lemma percent_example:
  "f64_of_int 100 = Fin 100"
  "f64_sub (Fin 110) (Fin 100) = Fin 10"
  "f64_mul (f64_div (Fin 10) (Fin 100)) (Fin 100) = Fin 10"
  "wrap64 (110 - 100) = 10"
  "f64_mul (f64_div (f64_of_int 10) (f64_of_int 100)) (Fin 100) = Fin 10"
  by code_simp+


section \<open>Properties of the transformer\<close>

lemma for_each_Returns:
  "(\<And>v. v \<in> set vs \<Longrightarrow> f v = Returns (g v)) \<Longrightarrow> for_each f vs = Returns (map g vs)"
  by (induction vs) simp_all

lemma those_map:
  "(\<And>x. x \<in> set xs \<Longrightarrow> f x = Some (g x)) \<Longrightarrow> those (map f xs) = Some (map g xs)"
  by (induction xs) simp_all

lemma iterate_pairs:
  "iterate (pairs vs) = Returns (map (\<lambda>p. JArr [JInt (fst p), snd p]) vs)"
  by (simp add: pairs_def)

lemma second_components:
  "for_each (\<lambda>vol. getitem_pos vol 1) (map (\<lambda>p. JArr [JInt (fst p), snd p]) vs)
     = Returns (map snd vs)"
proof -
  have "for_each (\<lambda>vol. getitem_pos vol 1) (map (\<lambda>p. JArr [JInt (fst p), snd p]) vs)
        = Returns (map (\<lambda>v. case v of JArr xs \<Rightarrow> xs ! 1 | _ \<Rightarrow> v)
                     (map (\<lambda>p. JArr [JInt (fst p), snd p]) vs))"
    by (rule for_each_Returns) auto
  then show ?thesis by (simp add: comp_def)
qed

lemma rows_of_pairs:
  "those (map (\<lambda>p. Some (JInt (fst p), snd p)) ps) = Some (map (\<lambda>p. (JInt (fst p), snd p)) ps)"
  by (rule those_map) simp

lemma DataFrame_pairs:
  "DataFrame (pairs ps) c1 c2 =
     and_then (infer_column (map (\<lambda>p. JInt (fst p)) ps)) (\<lambda>first.
     and_then (infer_column (map snd ps)) (\<lambda>second.
     Returns \<lparr>index = map Pos [0..<length ps], columns = [(c1, first), (c2, second)]\<rparr>))"
  by (simp add: DataFrame_def pairs_def rows_of_pairs comp_def)

text \<open>Type inference on the lists that the theorems are about.\<close>

lemma infer_timestamps:
  assumes "ps \<noteq> []" and "list_all int64 (map fst ps)"
  shows "infer_column (map (\<lambda>p. JInt (fst p)) ps) = Returns (Int64 (map fst ps))"
proof -
  have "\<not> list_all is_null (map (\<lambda>p. JInt (fst p)) ps)"
    using assms(1) by (cases ps) simp_all
  moreover have "list_all is_int64 (map (\<lambda>p. JInt (fst p)) ps)"
    using assms(2) by (simp add: list_all_iff)
  ultimately show ?thesis
    using assms(1) by (simp add: infer_column_def comp_def)
qed


lemma infer_numbers:
  assumes "list_all is_number vs"
  shows "\<exists>c. infer_column vs = Returns c \<and> length (cells c) = length vs"
  using assms by (simp add: infer_column_def)





lemma process_data_steps:
  assumes p: "map_of kvs ''prices'' = Some (pairs ps)"
      and v: "map_of kvs ''total_volumes'' = Some (pairs vs)"
  shows "process_data (JObj kvs) =
           and_then (DataFrame (pairs ps) ''timestamp'' ''price'') (\<lambda>df.
           and_then (setitem df ''volume'' (map snd vs)) (\<lambda>df.
           and_then (column df ''timestamp'') (\<lambda>ts.
           and_then (to_datetime ts) (\<lambda>date.
           Returns (df\<lparr>index := map Date date\<rparr>)))))"
proof -
  have t: "truthy (JObj kvs)" using p by (cases kvs) simp_all
  show ?thesis
    unfolding process_data_def
    by (simp only: t p v getitem_key.simps option.case and_then.simps
        iterate_pairs second_components not_True_eq_False if_False)
qed

text \<open>
  Claim C6. For an absent (\<^verbatim>\<open>None\<close>) or empty payload, and for every other payload that
  Python treats as false, \<open>process_data\<close> returns the empty table: zero rows, no exception.
\<close>

theorem process_data_absent_or_empty:
  assumes "\<not> truthy raw_data"
  shows "process_data raw_data = Returns empty_DataFrame \<and> len empty_DataFrame = 0"
  using assms by (simp add: process_data_def len_def empty_DataFrame_def)

theorem process_data_absent_or_empty_witness:
  "\<not> truthy JNull \<and> \<not> truthy (JObj []) \<and>
   process_data JNull = Returns empty_DataFrame \<and>
   process_data (JObj []) = Returns empty_DataFrame \<and> len empty_DataFrame = 0"
  using process_data_absent_or_empty [of JNull] process_data_absent_or_empty [of "JObj []"]
  by simp




text \<open>
  Claim C10, as stated, fails: with no prices and one volume entry the column assignment
  gives the frame an index and \<open>process_data\<close> returns a table padded with missing
  timestamps and prices.
\<close>

theorem process_data_mismatch_counterexample:
  "truthy (JObj [(''prices'', pairs []), (''total_volumes'', pairs [(1000, JInt 7)])]) \<and>
   length ([] :: (int \<times> json) list) \<noteq> length [(1000 :: int, JInt 7)] \<and>
   process_data (JObj [(''prices'', pairs []), (''total_volumes'', pairs [(1000, JInt 7)])])
     = Returns \<lparr>index = [Date NaT],
                columns = [(''timestamp'', Object [F64 NaN]), (''price'', Object [F64 NaN]),
                           (''volume'', Int64 [7])]\<rparr>"
  by code_simp

text \<open>
  Claim C10, amended. For every truthy payload in which \<open>prices\<close> is a non-empty sequence of
  \<open>[timestamp, value]\<close> pairs (timestamps that are integers of 64 bits, values that are
  integers of 64 bits, floats or nulls) and \<open>total_volumes\<close> is a sequence of
  \<open>[integer timestamp, value]\<close> pairs of a different length, \<open>process_data\<close> raises an error,
  a \<^verbatim>\<open>ValueError\<close>, at the volume-column assignment: the frame is built from the prices, the
  assignment raises, and no truncated or padded table is returned.
\<close>

theorem process_data_mismatch:
  assumes "map_of kvs ''prices'' = Some (pairs ps)"
      and "map_of kvs ''total_volumes'' = Some (pairs vs)"
      and "ps \<noteq> []"
      and "well_shaped ps"
      and "length ps \<noteq> length vs"
  shows "(\<exists>df. DataFrame (pairs ps) ''timestamp'' ''price'' = Returns df \<and>
               len df = length ps \<and>
               setitem df ''volume'' (map snd vs) = Raises ValueError) \<and>
         process_data (JObj kvs) = Raises ValueError"
proof -
  have ts: "list_all int64 (map fst ps)" and nums: "list_all is_number (map snd ps)"
    using assms(4) by (simp_all add: well_shaped_def list_all_iff)
  from infer_numbers [OF nums] obtain price where
    price: "infer_column (map snd ps) = Returns price" by blast
  let ?df = "\<lparr>index = map Pos [0..<length ps],
              columns = [(''timestamp'', Int64 (map fst ps)), (''price'', price)]\<rparr>"
  have frame: "DataFrame (pairs ps) ''timestamp'' ''price'' = Returns ?df"
    by (simp add: DataFrame_pairs infer_timestamps [OF assms(3) ts] price)
  have raises: "setitem ?df ''volume'' (map snd vs) = Raises ValueError"
    using assms(3,5) by (auto simp add: setitem_def)
  have "process_data (JObj kvs) = Raises ValueError"
    by (simp add: process_data_steps [OF assms(1,2)] frame raises)
  moreover have "len ?df = length ps" by (simp add: len_def)
  ultimately show ?thesis using frame raises by blast
qed

theorem process_data_mismatch_witness:
  "process_data (JObj [(''prices'', pairs [(1000, JInt 5), (2000, JNull)]),
                       (''total_volumes'', pairs [(1000, JInt 7)])]) = Raises ValueError \<and>
   process_data (JObj [(''prices'', pairs [(1000, JFloat (Fin 5))]),
                       (''total_volumes'', pairs [(1000, JInt 7), (2000, JStr ''n/a'')])])
     = Raises ValueError"
proof -
  have w: "well_shaped [(1000, JInt 5), (2000, JNull)]" "well_shaped [(1000, JFloat (Fin 5))]"
    by (simp_all add: well_shaped_def int64_def is_number_def)
  from process_data_mismatch [of "[(''prices'', pairs [(1000, JInt 5), (2000, JNull)]),
                       (''total_volumes'', pairs [(1000, JInt 7)])]"
         "[(1000, JInt 5), (2000, JNull)]" "[(1000, JInt 7)]"]
       process_data_mismatch [of "[(''prices'', pairs [(1000, JFloat (Fin 5))]),
                       (''total_volumes'', pairs [(1000, JInt 7), (2000, JStr ''n/a'')])]"
         "[(1000, JFloat (Fin 5))]" "[(1000, JInt 7), (2000, JStr ''n/a'')]"] w
  show ?thesis by simp
qed


section \<open>Properties of the presenter\<close>

lemma series_getitem_last:
  "cells c \<noteq> [] \<Longrightarrow> series_getitem c (- 1) = Returns (last (cells c))"
  by (cases "cells c" rule: rev_cases) (simp_all add: series_getitem_def Let_def nat_add_distrib)

lemma series_getitem_second_to_last:
  "2 \<le> length (cells c) \<Longrightarrow>
   series_getitem c (- 2) = Returns (cells c ! (length (cells c) - 2))"
proof -
  assume a: "2 \<le> length (cells c)"
  then have "nat (int (length (cells c)) + - 2) = length (cells c) - 2" by simp
  then show ?thesis using a by (simp add: series_getitem_def Let_def)
qed

lemma key_metrics_floats:
  assumes "map_of (columns df) ''price'' = Some (Float64 price)" and "2 \<le> length price"
  shows "key_metrics df =
        Returns \<lparr>latest_price = F64 (last price),
                 prev_price = F64 (price ! (length price - 2)),
                 price_change = F64 (f64_sub (last price) (price ! (length price - 2))),
                 price_change_pct =
                   F64 (f64_mul (f64_div (f64_sub (last price) (price ! (length price - 2)))
                                         (price ! (length price - 2)))
                                (Fin 100))\<rparr>"
proof -
  from assms(2) have ne: "cells (Float64 price) \<noteq> []" by auto
  from assms(2) have two: "2 \<le> length (cells (Float64 price))" by simp
  from assms(2) have l: "last (map F64 price) = F64 (last price)"
    by (cases price rule: rev_cases) simp_all
  from assms(2) have p: "map F64 price ! (length price - 2) = F64 (price ! (length price - 2))"
    by simp
  show ?thesis
    using l p
    by (simp add: key_metrics_def column_def assms(1) series_getitem_last [OF ne]
        series_getitem_second_to_last [OF two] py_truediv_def percent_example)
qed

text \<open>
  Claim C7, as stated, fails on two-row tables that the transformer returns: with prices
  that are all null the subtraction raises \<^verbatim>\<open>TypeError\<close> and no metric is computed, and with
  integer prices at the two ends of the 64-bit range the absolute change wraps around to
  \<open>-1\<close>.
\<close>

theorem key_metrics_counterexample:
  "process_data (JObj [(''prices'', pairs [(1000, JNull), (2000, JNull)]),
                       (''total_volumes'', pairs [(1000, JFloat (Fin 7)), (2000, JFloat (Fin 8))])])
     = Returns \<lparr>index = [Date (EpochMs 1000), Date (EpochMs 2000)],
                columns = [(''timestamp'', Int64 [1000, 2000]),
                           (''price'', Object [PyNone, PyNone]),
                           (''volume'', Float64 [Fin 7, Fin 8])]\<rparr> \<and>
   key_metrics \<lparr>index = [Date (EpochMs 1000), Date (EpochMs 2000)],
                columns = [(''timestamp'', Int64 [1000, 2000]),
                           (''price'', Object [PyNone, PyNone]),
                           (''volume'', Float64 [Fin 7, Fin 8])]\<rparr> = Raises TypeError \<and>
   key_metrics (market_table [(1000, JInt (- 9223372036854775808)),
                              (2000, JInt 9223372036854775807)]
                             [(1000, JInt 1), (2000, JInt 2)])
     = Returns \<lparr>latest_price = I64 9223372036854775807,
                prev_price = I64 (- 9223372036854775808),
                price_change = I64 (- 1),
                price_change_pct = F64 (Fin (25 / 2305843009213693952))\<rparr>"
  by code_simp

text \<open>
  Claim C7, amended. For every market table with at least two rows whose price column holds
  binary64 numbers, the latest price is the last row's price, the previous price the
  second-to-last row's price, the absolute change their binary64 difference, and the
  percentage change that difference divided by the previous price, times one hundred, in
  binary64 arithmetic. For a table with rows priced 100 and 110, written as floats or as
  integers, the metrics are 110, 100, 10 and exactly 10.0.
\<close>

theorem key_metrics_two_rows:
  "(map_of (columns df) ''price'' = Some (Float64 price) \<and> 2 \<le> length price \<longrightarrow>
      key_metrics df =
        Returns \<lparr>latest_price = F64 (last price),
                 prev_price = F64 (price ! (length price - 2)),
                 price_change = F64 (f64_sub (last price) (price ! (length price - 2))),
                 price_change_pct =
                   F64 (f64_mul (f64_div (f64_sub (last price) (price ! (length price - 2)))
                                         (price ! (length price - 2)))
                                (Fin 100))\<rparr>) \<and>
   key_metrics (market_table [(t0, JFloat (Fin 100)), (t1, JFloat (Fin 110))]
                             [(t0, v0), (t1, v1)]) =
     Returns \<lparr>latest_price = F64 (Fin 110), prev_price = F64 (Fin 100),
              price_change = F64 (Fin 10), price_change_pct = F64 (Fin 10)\<rparr> \<and>
   key_metrics (market_table [(t0, JInt 100), (t1, JInt 110)] [(t0, v0), (t1, v1)]) =
     Returns \<lparr>latest_price = I64 110, prev_price = I64 100,
              price_change = I64 10, price_change_pct = F64 (Fin 10)\<rparr>"
proof -
  have floats: "map_of (columns (market_table [(t0, JFloat (Fin 100)), (t1, JFloat (Fin 110))]
                                              [(t0, v0), (t1, v1)])) ''price''
          = Some (Float64 [Fin 100, Fin 110])"
    by (simp add: market_table_def typed_def)
  have "key_metrics (market_table [(t0, JFloat (Fin 100)), (t1, JFloat (Fin 110))]
                             [(t0, v0), (t1, v1)]) =
     Returns \<lparr>latest_price = F64 (Fin 110), prev_price = F64 (Fin 100),
              price_change = F64 (Fin 10), price_change_pct = F64 (Fin 10)\<rparr>"
    using key_metrics_floats [OF floats] by (simp add: percent_example)
  moreover have "key_metrics (market_table [(t0, JInt 100), (t1, JInt 110)] [(t0, v0), (t1, v1)]) =
     Returns \<lparr>latest_price = I64 110, prev_price = I64 100,
              price_change = I64 10, price_change_pct = F64 (Fin 10)\<rparr>"
    using percent_example
    by (simp add: key_metrics_def column_def market_table_def typed_def int64_def
        series_getitem_def py_truediv_def)
  ultimately show ?thesis using key_metrics_floats by blast
qed

theorem key_metrics_two_rows_witness:
  "key_metrics \<lparr>index = [Date (EpochMs 1000), Date (EpochMs 2000), Date (EpochMs 3000)],
                columns = [(''timestamp'', Int64 [1000, 2000, 3000]),
                           (''price'', Float64 [Fin 3, Fin 100, Fin 110]),
                           (''volume'', Float64 [Fin 7, Fin 8, Fin 9])]\<rparr>
     = Returns \<lparr>latest_price = F64 (Fin 110), prev_price = F64 (Fin 100),
                price_change = F64 (Fin 10), price_change_pct = F64 (Fin 10)\<rparr>"
  using key_metrics_two_rows [of "\<lparr>index = [Date (EpochMs 1000), Date (EpochMs 2000), Date (EpochMs 3000)],
                columns = [(''timestamp'', Int64 [1000, 2000, 3000]),
                           (''price'', Float64 [Fin 3, Fin 100, Fin 110]),
                           (''volume'', Float64 [Fin 7, Fin 8, Fin 9])]\<rparr>" "[Fin 3, Fin 100, Fin 110]"]
  by (simp add: percent_example)

text \<open>
  Claim C2 on a table with a single row: the table is not empty, so the metrics are
  computed, and the lookup of the previous price at position \<open>-2\<close> raises \<^verbatim>\<open>IndexError\<close>
  after the first subheader has been shown.
\<close>

theorem single_row_prev_price_lookup:
  "process_data (JObj [(''prices'', pairs [(1000, JInt 5)]),
                       (''total_volumes'', pairs [(1000, JInt 7)])])
     = Returns (market_table [(1000, JInt 5)] [(1000, JInt 7)]) \<and>
   len (market_table [(1000, JInt 5)] [(1000, JInt 7)]) = 1 \<and>
   \<not> df_empty (market_table [(1000, JInt 5)] [(1000, JInt 7)]) \<and>
   key_metrics (market_table [(1000, JInt 5)] [(1000, JInt 7)]) = Raises IndexError \<and>
   main_logic ''BTC'' (JObj [(''prices'', pairs [(1000, JInt 5)]),
                             (''total_volumes'', pairs [(1000, JInt 7)])])
     = ([Subheader ''Key Metrics for BTC''], Raises IndexError)"
  by code_simp

text \<open>
  Claim C4 on a payload that was fetched and decoded but has no \<open>prices\<close>: the transformer
  raises \<^verbatim>\<open>KeyError\<close>, and the main logic ends with that exception without showing the
  warning banner.
\<close>

theorem malformed_payload_raises:
  "truthy (JObj [(''error'', JStr ''coin not found'')]) \<and>
   process_data (JObj [(''error'', JStr ''coin not found'')]) = Raises (KeyError (JStr ''prices'')) \<and>
   main_logic ''BTC'' (JObj [(''error'', JStr ''coin not found'')])
     = ([], Raises (KeyError (JStr ''prices'')))"
  by code_simp


section \<open>Properties of the fetcher and its memo table\<close>

lemma requested_fetch_body: "requested (fetch_body net coin_id days) = [market_chart_url coin_id days]"
  by (simp add: fetch_body_def Let_def split: sum.splits)



lemma fetch_miss:
  "fresh c (coin_id, days) t = None \<Longrightarrow>
   fetch_crypto_data net t c coin_id days =
     (fetch_body net coin_id days,
      c((coin_id, days) \<mapsto> \<lparr>stored_at = t, cached = fetch_body net coin_id days\<rparr>))"
  by (simp add: fetch_crypto_data_def Let_def)











lemma fetch_body_fails:
  assumes "fetch_fails net (market_chart_url coin_id days)"
  shows "\<exists>msg. fetch_attempt net (market_chart_url coin_id days) = Inl msg \<and>
           fetch_body net coin_id days =
           \<lparr>shown = [notice coin_id, Error (''Error fetching data: '' @ msg)],
            returned = JNull, requested = [market_chart_url coin_id days]\<rparr>"
proof -
  have "\<exists>msg. fetch_attempt net (market_chart_url coin_id days) = Inl msg"
  proof (cases "net (market_chart_url coin_id days)")
    case (Inl msg)
    then show ?thesis by (simp add: fetch_attempt_def)
  next
    case (Inr r)
    with assms have bad: "(400 \<le> status_code r \<and> status_code r < 600) \<or> isl (body r)"
      by (simp add: fetch_fails_def)
    show ?thesis
    proof (cases "400 \<le> status_code r \<and> status_code r < 600")
      case True
      then show ?thesis using Inr
        by (auto simp add: fetch_attempt_def raise_for_status_def)
    next
      case False
      with bad obtain msg where "body r = Inl msg" by (cases "body r") auto
      with False Inr show ?thesis
        by (auto simp add: fetch_attempt_def raise_for_status_def)
    qed
  qed
  then show ?thesis by (auto simp add: fetch_body_def Let_def)
qed

text \<open>The message of each kind of failure.\<close>

lemma failure_messages:
  assumes "fetch_attempt net url = Inl msg"
  shows "(\<forall>e. net url = Inl e \<longrightarrow> msg = e) \<and>
         (\<forall>r. net url = Inr r \<and> 400 \<le> status_code r \<and> status_code r < 500 \<longrightarrow>
              msg = str_nat (status_code r) @ '' Client Error: '' @ reason r
                      @ '' for url: '' @ url) \<and>
         (\<forall>r. net url = Inr r \<and> 500 \<le> status_code r \<and> status_code r < 600 \<longrightarrow>
              msg = str_nat (status_code r) @ '' Server Error: '' @ reason r
                      @ '' for url: '' @ url) \<and>
         (\<forall>r e. net url = Inr r \<and> \<not> (400 \<le> status_code r \<and> status_code r < 600) \<and>
                body r = Inl e \<longrightarrow> msg = e)"
  using assms
  by (auto simp add: fetch_attempt_def raise_for_status_def split: sum.splits if_splits)

lemma main_selected:
  assumes "selectbox (keys COIN_MAP) 0 (chosen inp) = Some name"
      and "dict_getitem COIN_MAP name = Returns coin_id"
      and "fetch_crypto_data (network inp) (clock inp) c coin_id DAYS = (f, c')"
  shows "main c inp =
           \<lparr>elements = heading @ fst (ui_then (ui_then (shown f, Returns (returned f))
                                                  (main_logic name))
                                         (\<lambda>u. (footer inp, Returns ()))),
            ended = snd (ui_then (ui_then (shown f, Returns (returned f)) (main_logic name))
                                 (\<lambda>u. (footer inp, Returns ()))),
            fetch_calls = [(coin_id, DAYS)], requests = requested f, cache_after = c'\<rparr>"
  using assms by (simp add: main_def Let_def)

lemma failed_page:
  assumes "returned f = JNull"
  shows "ui_then (ui_then (shown f, Returns (returned f)) (main_logic name))
                 (\<lambda>u. (footer inp, Returns ()))
           = (shown f @ [banner] @ footer inp, Returns ())"
  using assms by (simp add: ui_then_def main_logic_def st_def)

lemma no_chart_in_frame: "filter is_chart heading = [] \<and> filter is_chart (footer inp) = []"
  by (simp add: heading_def footer_def)

text \<open>
  Claim C8, as stated, fails for a status outside 200-299 that is no error code: a response
  with status 300 and a JSON body is returned by the fetcher, and the page shows the three
  charts and no error banner.
\<close>

theorem other_status_counterexample:
  "returned (fst (fetch_crypto_data (respond 300 ''Multiple Choices'' (Inr two_points)) 0
                    empty_cache ''bitcoin'' DAYS)) = two_points \<and>
   length (filter is_chart (elements
     (main empty_cache (tick 0 None 0 (respond 300 ''Multiple Choices'' (Inr two_points)))))) = 3 \<and>
   banner \<notin> set (elements
     (main empty_cache (tick 0 None 0 (respond 300 ''Multiple Choices'' (Inr two_points)))))"
  by code_simp

text \<open>
  Claim C8, amended. When the fetcher goes to the network and the request fails (network
  failure, a status from 400 to 599, or a body that is not JSON), the request raises an
  exception whose message is the network error's text, the status line of the error code,
  or the decoder's message; the fetcher shows that message and returns \<^verbatim>\<open>None\<close>; the page
  shows the error banner, runs to its end, and shows no chart.
\<close>

theorem fetch_failure_collapses:
  assumes "selectbox (keys COIN_MAP) 0 (chosen inp) = Some name"
      and "dict_getitem COIN_MAP name = Returns coin_id"
      and "fresh c (coin_id, DAYS) (clock inp) = None"
      and "fetch_fails (network inp) (market_chart_url coin_id DAYS)"
  shows "\<exists>msg.
           fetch_attempt (network inp) (market_chart_url coin_id DAYS) = Inl msg \<and>
           (\<forall>e. network inp (market_chart_url coin_id DAYS) = Inl e \<longrightarrow> msg = e) \<and>
           (\<forall>r. network inp (market_chart_url coin_id DAYS) = Inr r \<and>
                 400 \<le> status_code r \<and> status_code r < 500 \<longrightarrow>
                 msg = str_nat (status_code r) @ '' Client Error: '' @ reason r
                         @ '' for url: '' @ market_chart_url coin_id DAYS) \<and>
           (\<forall>r. network inp (market_chart_url coin_id DAYS) = Inr r \<and>
                 500 \<le> status_code r \<and> status_code r < 600 \<longrightarrow>
                 msg = str_nat (status_code r) @ '' Server Error: '' @ reason r
                         @ '' for url: '' @ market_chart_url coin_id DAYS) \<and>
           (\<forall>r e. network inp (market_chart_url coin_id DAYS) = Inr r \<and>
                 \<not> (400 \<le> status_code r \<and> status_code r < 600) \<and> body r = Inl e \<longrightarrow>
                 msg = e) \<and>
           fst (fetch_crypto_data (network inp) (clock inp) c coin_id DAYS) =
             \<lparr>shown = [notice coin_id, Error (''Error fetching data: '' @ msg)],
              returned = JNull, requested = [market_chart_url coin_id DAYS]\<rparr> \<and>
           elements (main c inp) =
             heading @ [notice coin_id, Error (''Error fetching data: '' @ msg), banner]
               @ footer inp \<and>
           ended (main c inp) = Returns () \<and>
           filter is_chart (elements (main c inp)) = []"
proof -
  from fetch_body_fails [OF assms(4)] obtain msg where
    attempt: "fetch_attempt (network inp) (market_chart_url coin_id DAYS) = Inl msg" and
    body: "fetch_body (network inp) coin_id DAYS =
           \<lparr>shown = [notice coin_id, Error (''Error fetching data: '' @ msg)],
            returned = JNull, requested = [market_chart_url coin_id DAYS]\<rparr>"
    by blast
  note miss = fetch_miss [OF assms(3), of "network inp"]
  have null: "returned (fetch_body (network inp) coin_id DAYS) = JNull"
    by (simp add: body)
  have "elements (main c inp) = heading @ shown (fetch_body (network inp) coin_id DAYS)
                                  @ [banner] @ footer inp"
    and fin: "ended (main c inp) = Returns ()"
    by (simp_all add: main_selected [OF assms(1,2) miss] failed_page [OF null])
  then have page: "elements (main c inp) =
             heading @ [notice coin_id, Error (''Error fetching data: '' @ msg), banner]
               @ footer inp"
    by (simp add: body)
  have charts: "filter is_chart (elements (main c inp)) = []"
    by (simp add: page no_chart_in_frame notice_def banner_def)
  have fetched: "fst (fetch_crypto_data (network inp) (clock inp) c coin_id DAYS) =
             \<lparr>shown = [notice coin_id, Error (''Error fetching data: '' @ msg)],
              returned = JNull, requested = [market_chart_url coin_id DAYS]\<rparr>"
    using miss body by simp
  from failure_messages [OF attempt] attempt fetched page fin charts
  show ?thesis by blast
qed

theorem fetch_failure_collapses_witness:
  "Error (''Error fetching data: 500 Server Error: Internal Server Error for url: ''
          @ market_chart_url ''ethereum'' DAYS)
     \<in> set (elements (main empty_cache
       (tick 0 (Some ''ETH'') 0 (respond 500 ''Internal Server Error'' (Inr two_points))))) \<and>
   filter is_chart (elements (main empty_cache
       (tick 0 (Some ''ETH'') 0 (respond 500 ''Internal Server Error'' (Inr two_points))))) = [] \<and>
   banner \<in> set (elements (main empty_cache
       (tick 0 (Some ''ETH'') 0 (respond 500 ''Internal Server Error'' (Inr two_points))))) \<and>
   returned (fst (fetch_crypto_data (respond 500 ''Internal Server Error'' (Inr two_points)) 0
                    empty_cache ''ethereum'' DAYS)) = JNull"
proof -
  let ?inp = "tick 0 (Some ''ETH'') 0 (respond 500 ''Internal Server Error'' (Inr two_points))"
  let ?url = "market_chart_url ''ethereum'' DAYS"
  have 1: "selectbox (keys COIN_MAP) 0 (chosen ?inp) = Some ''ETH''"
    by (simp add: selectbox_def tick_def)
  have 2: "dict_getitem COIN_MAP ''ETH'' = Returns ''ethereum''"
    by code_simp
  have 3: "fresh empty_cache (''ethereum'', DAYS) (clock ?inp) = None"
    by (simp add: fresh_def empty_cache_def)
  have 4: "fetch_fails (network ?inp) ?url"
    by (simp add: fetch_fails_def tick_def respond_def)
  have r: "network ?inp ?url
             = Inr \<lparr>status_code = 500, reason = ''Internal Server Error'', body = Inr two_points\<rparr>"
    by (simp add: tick_def respond_def)
  have n: "str_nat 500 = ''500''" by code_simp
  from fetch_failure_collapses [OF 1 2 3 4] obtain msg where
    m: "\<forall>r. network ?inp ?url = Inr r \<and> 500 \<le> status_code r \<and> status_code r < 600 \<longrightarrow>
                 msg = str_nat (status_code r) @ '' Server Error: '' @ reason r
                         @ '' for url: '' @ ?url"
    and f: "fst (fetch_crypto_data (network ?inp) (clock ?inp) empty_cache ''ethereum'' DAYS) =
             \<lparr>shown = [notice ''ethereum'', Error (''Error fetching data: '' @ msg)],
              returned = JNull, requested = [?url]\<rparr>"
    and p: "elements (main empty_cache ?inp) =
             heading @ [notice ''ethereum'', Error (''Error fetching data: '' @ msg), banner]
               @ footer ?inp"
    and c: "filter is_chart (elements (main empty_cache ?inp)) = []"
    by blast
  from m r have "msg = str_nat 500 @ '' Server Error: '' @ ''Internal Server Error''
                         @ '' for url: '' @ ?url"
    by simp
  then have msg: "msg = ''500 Server Error: Internal Server Error for url: '' @ ?url"
    by (simp add: n)
  from f have "returned (fst (fetch_crypto_data (respond 500 ''Internal Server Error''
      (Inr two_points)) 0 empty_cache ''ethereum'' DAYS)) = JNull"
    by (simp add: tick_def)
  with p c msg show ?thesis by simp
qed







section \<open>Properties of the coin selector\<close>

lemma map_of_dict_setitem: "map_of (dict_setitem k v d) = (map_of d)(k \<mapsto> v)"
  by (induction d) (auto simp add: fun_eq_iff)

lemma map_of_foldl_setitem:
  "map_of (foldl (\<lambda>d kv. dict_setitem (fst kv) (snd kv) d) d items)
     = map_of d ++ map_of (rev items)"
proof (induction items arbitrary: d)
  case Nil
  show ?case by simp
next
  case (Cons kv items)
  show ?case
    by (simp add: Cons.IH map_of_dict_setitem map_add_upd_left fun_eq_iff map_add_def
        split: option.splits)
qed

lemma keys_dict_setitem: "set (keys (dict_setitem k v d)) = insert k (set (keys d))"
  by (induction d) (auto simp add: keys_def)

lemma distinct_dict_setitem: "distinct (keys d) \<Longrightarrow> distinct (keys (dict_setitem k v d))"
proof (induction d)
  case Nil
  show ?case by (simp add: keys_def)
next
  case (Cons c d)
  then have "distinct (keys d)" and "fst c \<notin> set (keys d)" by (simp_all add: keys_def)
  with Cons.IH keys_dict_setitem [of k v d] show ?case
    by (auto simp add: keys_def)
qed

lemma distinct_foldl_setitem:
  "distinct (keys d) \<Longrightarrow>
   distinct (keys (foldl (\<lambda>d kv. dict_setitem (fst kv) (snd kv) d) d items))"
  by (induction items arbitrary: d) (simp_all add: distinct_dict_setitem)

text \<open>
  Claim C9. The selector maps \<open>ETH\<close> to \<open>ethereum\<close> and \<open>XRP\<close> to \<open>ripple\<close>; a dict literal
  keeps each key once with the value defined last; and a pass for a chosen label calls the
  fetcher with exactly the mapped identifier (and \<open>DAYS\<close>), which is the identifier in the
  URL requested when the call goes to the network.
\<close>

theorem coin_selector_mapping:
  "dict_getitem COIN_MAP ''ETH'' = Returns ''ethereum'' \<and>
   dict_getitem COIN_MAP ''XRP'' = Returns ''ripple'' \<and>
   map_of (dict_literal items) = map_of (rev items) \<and>
   distinct (keys (dict_literal items)) \<and>
   (chosen inp = Some name \<and> dict_getitem COIN_MAP name = Returns coin_id \<longrightarrow>
      fetch_calls (main c inp) = [(coin_id, DAYS)] \<and>
      (fresh c (coin_id, DAYS) (clock inp) = None \<longrightarrow>
         requests (main c inp) = [market_chart_url coin_id DAYS]))"
proof -
  have eth: "dict_getitem COIN_MAP ''ETH'' = Returns ''ethereum''"
    and xrp: "dict_getitem COIN_MAP ''XRP'' = Returns ''ripple''"
    by code_simp+
  have last_wins: "map_of (dict_literal items) = map_of (rev items)"
    by (simp add: dict_literal_def map_of_foldl_setitem)
  have once: "distinct (keys (dict_literal items))"
    unfolding dict_literal_def by (rule distinct_foldl_setitem) (simp add: keys_def)
  have call: "fetch_calls (main c inp) = [(coin_id, DAYS)] \<and>
      (fresh c (coin_id, DAYS) (clock inp) = None \<longrightarrow>
         requests (main c inp) = [market_chart_url coin_id DAYS])"
    if "chosen inp = Some name" and "dict_getitem COIN_MAP name = Returns coin_id"
  proof -
    from that(1) have sel: "selectbox (keys COIN_MAP) 0 (chosen inp) = Some name"
      by (simp add: selectbox_def)
    obtain f c' where f: "fetch_crypto_data (network inp) (clock inp) c coin_id DAYS = (f, c')"
      by (cases "fetch_crypto_data (network inp) (clock inp) c coin_id DAYS")
    have "requests (main c inp) = [market_chart_url coin_id DAYS]"
      if "fresh c (coin_id, DAYS) (clock inp) = None"
      using fetch_miss [OF that, of "network inp"] f
      by (simp add: main_selected [OF sel \<open>dict_getitem COIN_MAP name = Returns coin_id\<close> f]
          requested_fetch_body)
    then show ?thesis
      by (simp add: main_selected [OF sel that(2) f])
  qed
  from eth xrp last_wins once call show ?thesis by blast
qed

theorem coin_selector_mapping_witness:
  "fetch_calls (main empty_cache (tick 0 (Some ''ETH'') 0 offline)) = [(''ethereum'', 60)] \<and>
   requests (main empty_cache (tick 0 (Some ''ETH'') 0 offline))
     = [''https://api.coingecko.com/api/v3/coins/ethereum/market_chart?vs_currency=usd&days=60''] \<and>
   fetch_calls (main empty_cache (tick 0 (Some ''XRP'') 0 offline)) = [(''ripple'', 60)] \<and>
   map_of (dict_literal [(''XRP'', ''first''), (''XRP'', ''ripple'')]) ''XRP'' = Some ''ripple''"
proof -
  have eth: "dict_getitem COIN_MAP ''ETH'' = Returns ''ethereum''"
    and xrp: "dict_getitem COIN_MAP ''XRP'' = Returns ''ripple''"
    and url: "market_chart_url ''ethereum'' DAYS
      = ''https://api.coingecko.com/api/v3/coins/ethereum/market_chart?vs_currency=usd&days=60''"
    by code_simp+
  have miss: "fresh empty_cache key t = None" for key t
    by (simp add: fresh_def empty_cache_def)
  have c1: "chosen (tick 0 (Some ''ETH'') 0 offline) = Some ''ETH''"
    and c2: "chosen (tick 0 (Some ''XRP'') 0 offline) = Some ''XRP''"
    by (simp_all add: tick_def)
  from coin_selector_mapping [of "[(''XRP'', ''first''), (''XRP'', ''ripple'')]"
         "tick 0 (Some ''ETH'') 0 offline" "''ETH''" "''ethereum''" empty_cache] c1 eth
       miss [of "(''ethereum'', DAYS)" "clock (tick 0 (Some ''ETH'') 0 offline)"]
  have a: "fetch_calls (main empty_cache (tick 0 (Some ''ETH'') 0 offline)) = [(''ethereum'', DAYS)]"
    and b: "requests (main empty_cache (tick 0 (Some ''ETH'') 0 offline))
              = [market_chart_url ''ethereum'' DAYS]"
    and d: "map_of (dict_literal [(''XRP'', ''first''), (''XRP'', ''ripple'')])
              = map_of (rev [(''XRP'', ''first''), (''XRP'', ''ripple'')])"
    by blast+
  from coin_selector_mapping [of "[]" "tick 0 (Some ''XRP'') 0 offline" "''XRP''" "''ripple''"
         empty_cache] c2 xrp
  have e: "fetch_calls (main empty_cache (tick 0 (Some ''XRP'') 0 offline)) = [(''ripple'', DAYS)]"
    by blast
  from a b d e url show ?thesis
    by (simp add: DAYS_def)
qed

end
